theory Spec2Isabelle
  imports Main
begin

section \<open>Go values used by package tool\<close>

text \<open>
  The embedding follows \<^verbatim>\<open>tool/function.go\<close>. Go's \<^verbatim>\<open>error\<close> interface is
  \<open>'x error option\<close> (\<open>None\<close> is the nil error). The errors the file builds itself are
  constructors named after their format string; \<open>External\<close> carries an error value made
  by a collaborator (the schema library, the converter of package typeutil).
\<close>

datatype 'x error =
    External 'x
  | DuplicateTool string
      \<comment> \<open>\<^verbatim>\<open>fmt.Errorf("duplicate tool: %q", name)\<close>\<close>
  | UnexpectedArgsType string
      \<comment> \<open>\<^verbatim>\<open>fmt.Errorf("unexpected args type, got: %T", args)\<close>\<close>
  | FailedToInferInputSchema "'x error"
      \<comment> \<open>\<^verbatim>\<open>fmt.Errorf("failed to infer input schema: %w", err)\<close>\<close>
  | FailedToInferOutputSchema "'x error"
      \<comment> \<open>\<^verbatim>\<open>fmt.Errorf("failed to infer output schema: %w", err)\<close>\<close>

text \<open>
  Run-time faults of the Go operations that \<^verbatim>\<open>ProcessRequest\<close> performs on the request:
  storing into a nil map and reading a field through a nil pointer.
\<close>

datatype panic = AssignmentToEntryInNilMap | NilPointerDereference

text \<open>
  A Go map is a partial function, and a map variable may be nil: \<open>None\<close> is the nil map.
  Reading a nil map finds no key; storing into it panics.
\<close>

definition map_index :: "('k \<rightharpoonup> 'v) option \<Rightarrow> 'k \<Rightarrow> 'v option" where
  "map_index m k = (case m of None \<Rightarrow> None | Some g \<Rightarrow> g k)"

definition map_assign :: "('k \<rightharpoonup> 'v) option \<Rightarrow> 'k \<Rightarrow> 'v \<Rightarrow> panic + ('k \<rightharpoonup> 'v) option" where
  "map_assign m k v =
     (case m of None \<Rightarrow> Inl AssignmentToEntryInNilMap | Some g \<Rightarrow> Inr (Some (g(k \<mapsto> v))))"

text \<open>
  A value of static type \<^verbatim>\<open>any\<close>, as far as \<^verbatim>\<open>Run\<close> looks at it: the nil interface, a
  \<^verbatim>\<open>map[string]any\<close> (possibly the nil map), or a value of any other dynamic type, of
  which only the name printed by \<^verbatim>\<open>%T\<close> is kept.
\<close>

datatype 'v any =
    AnyNil
  | MapStringAny "(string \<rightharpoonup> 'v) option"
  | OtherValue string

fun type_name :: "'v any \<Rightarrow> string" where
  "type_name AnyNil = ''<nil>''"
| "type_name (MapStringAny m) = ''map[string]interface {}''"
| "type_name (OtherValue t) = t"

section \<open>The data model\<close>

text \<open>
  \<open>'s\<close> is \<^verbatim>\<open>jsonschema.Schema\<close>, \<open>'r\<close> is \<^verbatim>\<open>jsonschema.Resolved\<close>; a pointer
  is an option. Go keeps one name space per struct; here the fields \<^verbatim>\<open>Name\<close> and
  \<^verbatim>\<open>Description\<close> of \<^verbatim>\<open>FunctionToolConfig\<close> are \<open>cfgName\<close> and \<open>cfgDescription\<close>,
  those of \<^verbatim>\<open>genai.FunctionDeclaration\<close> are \<open>declName\<close> and \<open>declDescription\<close>, and
  the field \<^verbatim>\<open>Tools\<close> of \<^verbatim>\<open>genai.GenerateContentConfig\<close> is \<open>genaiTools\<close>, so that
  the methods \<open>Name\<close>, \<open>Description\<close> and the request's \<open>Tools\<close> keep their names.
\<close>

record 's FunctionToolConfig =
  cfgName :: string
  cfgDescription :: string
  InputSchema :: "'s option"
  OutputSchema :: "'s option"

record ('s, 'r, 'c, 'a, 'b) functionTool =
  cfg :: "'s FunctionToolConfig"
  inputSchema :: "'r option"
  outputSchema :: "'r option"
  handler :: "'c \<Rightarrow> 'a \<Rightarrow> 'b"

record 's FunctionDeclaration =
  declName :: string
  declDescription :: string
  ParametersJsonSchema :: "'s option"
  ResponseJsonSchema :: "'s option"

record 's genai_Tool =
  FunctionDeclarations :: "'s FunctionDeclaration list"

text \<open>
  Of \<^verbatim>\<open>genai.GenerateContentConfig\<close> only the field this file touches is modelled. The
  other fields of \<^verbatim>\<open>llm.Request\<close> live in the extension part of the record, which the
  updates below leave alone. The values of the request's tool map are tool adapters.
\<close>

record 's GenerateContentConfig =
  genaiTools :: "'s genai_Tool list"

record ('t, 's) Request =
  Tools :: "(string \<rightharpoonup> 't) option"
  GenerateConfig :: "'s GenerateContentConfig option"

section \<open>The schema resolver and the constructor\<close>

text \<open>
  The schema library is outside the repository; its functions are parameters.
  \<open>For_T\<close> is the pair returned by \<^verbatim>\<open>jsonschema.For[T](nil)\<close>, which depends on the
  type \<open>T\<close> alone. \<open>Resolve p\<close> is the pair returned by \<^verbatim>\<open>p.Resolve(nil)\<close>, for the
  pointer \<open>p\<close>. A Go result \<^verbatim>\<open>(*Resolved, error)\<close> is a pair of options.
\<close>

definition resolvedSchema ::
  "'s option \<times> 'x error option \<Rightarrow> ('s option \<Rightarrow> 'r option \<times> 'x error option) \<Rightarrow>
   's option \<Rightarrow> 'r option \<times> 'x error option" where
  "resolvedSchema For_T Resolve override =
     (case override of
        Some s \<Rightarrow> Resolve (Some s)
      | None \<Rightarrow>
          (case For_T of
             (schema, Some err) \<Rightarrow> (None, Some err)
           | (schema, None) \<Rightarrow> Resolve schema))"

definition NewFunctionTool ::
  "'s option \<times> 'x error option \<Rightarrow> 's option \<times> 'x error option \<Rightarrow>
   ('s option \<Rightarrow> 'r option \<times> 'x error option) \<Rightarrow>
   's FunctionToolConfig \<Rightarrow> ('c \<Rightarrow> 'a \<Rightarrow> 'b) \<Rightarrow>
   ('s, 'r, 'c, 'a, 'b) functionTool option \<times> 'x error option" where
  "NewFunctionTool For_TArgs For_TResults Resolve c h =
     (case resolvedSchema For_TArgs Resolve (InputSchema c) of
        (ischema, Some err) \<Rightarrow> (None, Some (FailedToInferInputSchema err))
      | (ischema, None) \<Rightarrow>
          (case resolvedSchema For_TResults Resolve (OutputSchema c) of
             (oschema, Some err) \<Rightarrow> (None, Some (FailedToInferOutputSchema err))
           | (oschema, None) \<Rightarrow>
               (Some \<lparr>cfg = c, inputSchema = ischema, outputSchema = oschema, handler = h\<rparr>,
                None)))"

section \<open>The tool adapter\<close>

definition Description :: "('s, 'r, 'c, 'a, 'b) functionTool \<Rightarrow> string" where
  "Description f = cfgDescription (cfg f)"

definition Name :: "('s, 'r, 'c, 'a, 'b) functionTool \<Rightarrow> string" where
  "Name f = cfgName (cfg f)"

text \<open>
  \<open>Schema\<close> is the library's accessor \<^verbatim>\<open>(*Resolved).Schema()\<close>. The result is the
  pointer \<^verbatim>\<open>decl\<close>, which the caller compares with nil.
\<close>

definition Declaration ::
  "('r \<Rightarrow> 's) \<Rightarrow> ('s, 'r, 'c, 'a, 'b) functionTool \<Rightarrow> 's FunctionDeclaration option" where
  "Declaration Schema f =
     (let decl = \<lparr>declName = Name f, declDescription = Description f,
                  ParametersJsonSchema = None, ResponseJsonSchema = None\<rparr>;
          decl = (case inputSchema f of
                    None \<Rightarrow> decl
                  | Some r \<Rightarrow> decl\<lparr>ParametersJsonSchema := Some (Schema r)\<rparr>);
          decl = (case outputSchema f of
                    None \<Rightarrow> decl
                  | Some r \<Rightarrow> decl\<lparr>ResponseJsonSchema := Some (Schema r)\<rparr>)
      in Some decl)"

text \<open>
  \<^verbatim>\<open>ProcessRequest\<close> mutates the request behind the pointer \<^verbatim>\<open>req\<close>; the model returns
  the error together with the request as the call leaves it, or the panic that stopped it.
\<close>

definition ProcessRequest ::
  "('r \<Rightarrow> 's) \<Rightarrow> ('s, 'r, 'c, 'a, 'b) functionTool \<Rightarrow> 'c \<Rightarrow>
   (('s, 'r, 'c, 'a, 'b) functionTool, 's, 'z) Request_scheme \<Rightarrow>
   panic + ('x error option \<times> (('s, 'r, 'c, 'a, 'b) functionTool, 's, 'z) Request_scheme)" where
  "ProcessRequest Schema f ctx req =
     (let req = (if Tools req = None then req\<lparr>Tools := Some Map.empty\<rparr> else req);
          name = Name f
      in case map_index (Tools req) name of
           Some _ \<Rightarrow> Inr (Some (DuplicateTool name), req)
         | None \<Rightarrow>
             (case map_assign (Tools req) name f of
                Inl p \<Rightarrow> Inl p
              | Inr tools \<Rightarrow>
                  (let req = req\<lparr>Tools := tools\<rparr>;
                       req = (if GenerateConfig req = None
                              then req\<lparr>GenerateConfig := Some \<lparr>genaiTools = []\<rparr>\<rparr>
                              else req)
                   in case Declaration Schema f of
                        None \<Rightarrow> Inr (None, req)
                      | Some decl \<Rightarrow>
                          (case GenerateConfig req of
                             None \<Rightarrow> Inl NilPointerDereference
                           | Some gc \<Rightarrow>
                               Inr (None,
                                    req\<lparr>GenerateConfig :=
                                          Some (gc\<lparr>genaiTools :=
                                                     genaiTools gc @
                                                     [\<lparr>FunctionDeclarations = [decl]\<rparr>]\<rparr>)\<rparr>)))))"

text \<open>
  \<^verbatim>\<open>Run\<close>. The two instances of \<^verbatim>\<open>typeutil.ConvertToWithJSONSchema\<close> are parameters:
  \<open>convert_args\<close> is the instance from \<^verbatim>\<open>map[string]any\<close> to \<^verbatim>\<open>TArgs\<close>, \<open>convert_results\<close>
  the instance from \<^verbatim>\<open>TResults\<close> to \<^verbatim>\<open>map[string]any\<close>; each returns Go's pair of a value
  and an error. Beside the returned pair, the model returns the calls that \<^verbatim>\<open>Run\<close> made,
  in order.
\<close>

datatype ('v, 'a, 'b) call =
    ConvertArgs "(string \<rightharpoonup> 'v) option"
  | Handler 'a
  | ConvertResults 'b

definition Run ::
  "((string \<rightharpoonup> 'v) option \<Rightarrow> 'r option \<Rightarrow> 'a \<times> 'x error option) \<Rightarrow>
   ('b \<Rightarrow> 'r option \<Rightarrow> (string \<rightharpoonup> 'v) option \<times> 'x error option) \<Rightarrow>
   ('s, 'r, 'c, 'a, 'b) functionTool \<Rightarrow> 'c \<Rightarrow> 'v any \<Rightarrow>
   ('v any \<times> 'x error option) \<times> ('v, 'a, 'b) call list" where
  "Run convert_args convert_results f ctx args =
     (case args of
        MapStringAny m \<Rightarrow>
          (case convert_args m (inputSchema f) of
             (input, Some err) \<Rightarrow> ((AnyNil, Some err), [ConvertArgs m])
           | (input, None) \<Rightarrow>
               (let output = handler f ctx input;
                    (resp, err) = convert_results output (outputSchema f)
                in ((MapStringAny resp, err),
                    [ConvertArgs m, Handler input, ConvertResults output])))
      | _ \<Rightarrow> ((AnyNil, Some (UnexpectedArgsType (type_name args))), []))"


section \<open>The converter of package typeutil\<close>

text \<open>
  \<^verbatim>\<open>Run\<close> calls \<^verbatim>\<open>typeutil.ConvertToWithJSONSchema\<close>, whose package \<^verbatim>\<open>internal/typeutil\<close>
  is not among the sources. Section 4.4 of the spec describes its two instances. In the
  definitions below \<open>validate\<close> is the schema library's validation (\<open>None\<close> when the
  bag is valid), \<open>mapping\<close> and \<open>unmapping\<close> are the structural maps of the handler's
  two types, and \<open>zero\<close> is the zero value of the input type.
\<close>

text \<open>
  Modelled from the spec: validation of a bag against the schema of a tool, the part of
  \<^verbatim>\<open>typeutil.ConvertToWithJSONSchema\<close> that both instances share. The schemas of a tool
  descriptor are optional (section 3); with no schema there is nothing to validate
  against.
\<close>

definition validate_opt ::
  "('r \<Rightarrow> (string \<rightharpoonup> 'v) option \<Rightarrow> 'x error option) \<Rightarrow> 'r option \<Rightarrow>
   (string \<rightharpoonup> 'v) option \<Rightarrow> 'x error option" where
  "validate_opt validate schema m = (case schema of None \<Rightarrow> None | Some r \<Rightarrow> validate r m)"

text \<open>
  Modelled from the spec: \<^verbatim>\<open>typeutil.ConvertToWithJSONSchema[map[string]any, TArgs]\<close>.
  Section 4.4, step 2: validate the bag against the schema, then structurally map the
  validated fields onto the input type; a failure of either surfaces as a conversion
  error.
\<close>

definition ConvertToWithJSONSchema_args ::
  "('r \<Rightarrow> (string \<rightharpoonup> 'v) option \<Rightarrow> 'x error option) \<Rightarrow>
   ((string \<rightharpoonup> 'v) option \<Rightarrow> 'x error + 'a) \<Rightarrow> 'a \<Rightarrow>
   (string \<rightharpoonup> 'v) option \<Rightarrow> 'r option \<Rightarrow> 'a \<times> 'x error option" where
  "ConvertToWithJSONSchema_args validate mapping zero m schema =
     (case validate_opt validate schema m of
        Some err \<Rightarrow> (zero, Some err)
      | None \<Rightarrow>
          (case mapping m of
             Inl err \<Rightarrow> (zero, Some err)
           | Inr typed \<Rightarrow> (typed, None)))"

text \<open>
  Modelled from the spec: \<^verbatim>\<open>typeutil.ConvertToWithJSONSchema[TResults, map[string]any]\<close>.
  Section 4.4, steps 4 and 5: structural unmapping, then validation; a failure of either
  surfaces as a conversion error, with no result bag.
\<close>

definition ConvertToWithJSONSchema_results ::
  "('r \<Rightarrow> (string \<rightharpoonup> 'v) option \<Rightarrow> 'x error option) \<Rightarrow>
   ('b \<Rightarrow> 'x error + (string \<rightharpoonup> 'v) option) \<Rightarrow>
   'b \<Rightarrow> 'r option \<Rightarrow> (string \<rightharpoonup> 'v) option \<times> 'x error option" where
  "ConvertToWithJSONSchema_results validate unmapping v schema =
     (case unmapping v of
        Inl err \<Rightarrow> (None, Some err)
      | Inr m \<Rightarrow>
          (case validate_opt validate schema m of
             Some err \<Rightarrow> (None, Some err)
           | None \<Rightarrow> (m, None)))"

section \<open>A concrete instance: the tool add\<close>

text \<open>
  The scenario of the spec's section 8: a tool named add, input type \<^verbatim>\<open>{a: int, b: int}\<close>,
  output type \<^verbatim>\<open>{sum: int}\<close>, a handler that adds. The parameters of the model are
  instantiated with a small schema language, so that the theorems below can be run on
  concrete requests and bags.
\<close>

datatype json = JInt int | JStr string

datatype schema = AcceptAll | IntFields "string list" | BadRef

definition scenario_Resolve :: "schema option \<Rightarrow> schema option \<times> string error option" where
  "scenario_Resolve p =
     (case p of
        None \<Rightarrow> (None, Some (External ''nil schema''))
      | Some BadRef \<Rightarrow> (None, Some (External ''unresolvable reference''))
      | Some s \<Rightarrow> (Some s, None))"

definition int_field :: "(string \<rightharpoonup> json) \<Rightarrow> string \<Rightarrow> bool" where
  "int_field g k = (case g k of Some (JInt n) \<Rightarrow> True | _ \<Rightarrow> False)"

fun scenario_validate :: "schema \<Rightarrow> (string \<rightharpoonup> json) option \<Rightarrow> string error option" where
  "scenario_validate AcceptAll m = None"
| "scenario_validate (IntFields ks) m =
     (case m of
        None \<Rightarrow> Some (External ''not an object'')
      | Some g \<Rightarrow> if list_all (int_field g) ks then None else Some (External ''schema violation''))"
| "scenario_validate BadRef m = Some (External ''unresolvable reference'')"

record AddArgs =
  arg_a :: int
  arg_b :: int

record AddResults =
  res_sum :: int

definition add_handler :: "unit \<Rightarrow> AddArgs \<Rightarrow> AddResults" where
  "add_handler ctx x = \<lparr>res_sum = arg_a x + arg_b x\<rparr>"

definition args_mapping :: "(string \<rightharpoonup> json) option \<Rightarrow> string error + AddArgs" where
  "args_mapping m =
     (case map_index m ''a'' of
        Some (JInt x) \<Rightarrow>
          (case map_index m ''b'' of
             Some (JInt y) \<Rightarrow> Inr \<lparr>arg_a = x, arg_b = y\<rparr>
           | _ \<Rightarrow> Inl (External ''type mismatch on b''))
      | _ \<Rightarrow> Inl (External ''type mismatch on a''))"

definition args_unmapping :: "AddArgs \<Rightarrow> string error + (string \<rightharpoonup> json) option" where
  "args_unmapping x = Inr (Some [''a'' \<mapsto> JInt (arg_a x), ''b'' \<mapsto> JInt (arg_b x)])"

definition results_unmapping :: "AddResults \<Rightarrow> string error + (string \<rightharpoonup> json) option" where
  "results_unmapping y = Inr (Some [''sum'' \<mapsto> JInt (res_sum y)])"

definition convert_add_args ::
  "(string \<rightharpoonup> json) option \<Rightarrow> schema option \<Rightarrow> AddArgs \<times> string error option" where
  "convert_add_args =
     ConvertToWithJSONSchema_args scenario_validate args_mapping \<lparr>arg_a = 0, arg_b = 0\<rparr>"

definition convert_add_results ::
  "AddResults \<Rightarrow> schema option \<Rightarrow> (string \<rightharpoonup> json) option \<times> string error option" where
  "convert_add_results = ConvertToWithJSONSchema_results scenario_validate results_unmapping"

definition convert_echo_results ::
  "AddArgs \<Rightarrow> schema option \<Rightarrow> (string \<rightharpoonup> json) option \<times> string error option" where
  "convert_echo_results = ConvertToWithJSONSchema_results scenario_validate args_unmapping"

definition For_AddArgs :: "schema option \<times> string error option" where
  "For_AddArgs = (Some (IntFields [''a'', ''b'']), None)"

definition For_AddResults :: "schema option \<times> string error option" where
  "For_AddResults = (Some (IntFields [''sum'']), None)"

definition add_cfg :: "schema FunctionToolConfig" where
  "add_cfg = \<lparr>cfgName = ''add'', cfgDescription = ''adds two integers'',
              InputSchema = None, OutputSchema = None\<rparr>"

definition add_tool :: "(schema, schema, unit, AddArgs, AddResults) functionTool" where
  "add_tool = \<lparr>cfg = add_cfg, inputSchema = Some (IntFields [''a'', ''b'']),
               outputSchema = Some (IntFields [''sum'']), handler = add_handler\<rparr>"

text \<open>The same tool built with an explicit input schema that accepts every bag.\<close>

definition lenient_tool :: "(schema, schema, unit, AddArgs, AddResults) functionTool" where
  "lenient_tool = \<lparr>cfg = add_cfg\<lparr>InputSchema := Some AcceptAll\<rparr>,
                   inputSchema = Some AcceptAll,
                   outputSchema = Some (IntFields [''sum'']), handler = add_handler\<rparr>"

text \<open>A tool adapter value with neither schema.\<close>

definition bare_tool :: "(schema, schema, unit, AddArgs, AddResults) functionTool" where
  "bare_tool = \<lparr>cfg = add_cfg, inputSchema = None, outputSchema = None, handler = add_handler\<rparr>"

text \<open>
  Two tools whose handler is the identity on the record of the arguments: one with the
  inferred schemas, one with an explicit output schema that asks for a field the record
  does not have.
\<close>

definition echo_cfg :: "schema FunctionToolConfig" where
  "echo_cfg = \<lparr>cfgName = ''echo'', cfgDescription = ''returns its arguments'',
               InputSchema = None, OutputSchema = None\<rparr>"


definition strict_echo_tool :: "(schema, schema, unit, AddArgs, AddArgs) functionTool" where
  "strict_echo_tool =
     \<lparr>cfg = echo_cfg\<lparr>OutputSchema := Some (IntFields [''a'', ''b'', ''c''])\<rparr>,
      inputSchema = Some (IntFields [''a'', ''b'']),
      outputSchema = Some (IntFields [''a'', ''b'', ''c'']), handler = (\<lambda>ctx x. x)\<rparr>"



definition zero_request ::
  "((schema, schema, unit, AddArgs, AddResults) functionTool, schema) Request" where
  "zero_request = \<lparr>Tools = None, GenerateConfig = None\<rparr>"

definition add_declaration :: "schema FunctionDeclaration" where
  "add_declaration =
     \<lparr>declName = ''add'', declDescription = ''adds two integers'',
      ParametersJsonSchema = Some (IntFields [''a'', ''b'']),
      ResponseJsonSchema = Some (IntFields [''sum''])\<rparr>"

text \<open>The request as the first registration of add leaves it.\<close>

definition add_request ::
  "((schema, schema, unit, AddArgs, AddResults) functionTool, schema) Request" where
  "add_request =
     \<lparr>Tools = Some [''add'' \<mapsto> add_tool],
      GenerateConfig = Some \<lparr>genaiTools = [\<lparr>FunctionDeclarations = [add_declaration]\<rparr>]\<rparr>\<rparr>"

definition good_bag :: "(string \<rightharpoonup> json) option" where
  "good_bag = Some [''a'' \<mapsto> JInt 2, ''b'' \<mapsto> JInt 3]"

definition bad_bag :: "(string \<rightharpoonup> json) option" where
  "bad_bag = Some [''a'' \<mapsto> JStr ''x'', ''b'' \<mapsto> JInt 3]"


section \<open>Helper facts\<close>

lemma Declaration_eq:
  "Declaration Schema f =
     Some \<lparr>declName = Name f, declDescription = Description f,
           ParametersJsonSchema = map_option Schema (inputSchema f),
           ResponseJsonSchema = map_option Schema (outputSchema f)\<rparr>"
  by (simp add: Declaration_def Let_def split: option.splits)

lemma ProcessRequest_fresh:
  assumes "map_index (Tools req) (Name f) = None"
  shows "ProcessRequest Schema f ctx req =
           Inr (None,
                req\<lparr>Tools := Some ((case Tools req of None \<Rightarrow> Map.empty | Some g \<Rightarrow> g)
                                     (Name f \<mapsto> f)),
                    GenerateConfig :=
                      Some \<lparr>genaiTools =
                              (case GenerateConfig req of None \<Rightarrow> [] | Some gc \<Rightarrow> genaiTools gc) @
                              [\<lparr>FunctionDeclarations = [the (Declaration Schema f)]\<rparr>]\<rparr>\<rparr>)"
  using assms
  by (cases "Tools req"; cases "GenerateConfig req")
     (simp_all add: ProcessRequest_def Let_def map_index_def map_assign_def Declaration_eq)

lemma Run_map:
  "Run convert_args convert_results f ctx (MapStringAny m) =
     (case convert_args m (inputSchema f) of
        (input, Some err) \<Rightarrow> ((AnyNil, Some err), [ConvertArgs m])
      | (input, None) \<Rightarrow>
          ((MapStringAny (fst (convert_results (handler f ctx input) (outputSchema f))),
            snd (convert_results (handler f ctx input) (outputSchema f))),
           [ConvertArgs m, Handler input, ConvertResults (handler f ctx input)]))"
  by (simp add: Run_def Let_def case_prod_beta split: option.splits)

lemma results_error_no_bag:
  "snd (ConvertToWithJSONSchema_results validate unmapping v schema) = Some e \<Longrightarrow>
   fst (ConvertToWithJSONSchema_results validate unmapping v schema) = None"
  by (simp add: ConvertToWithJSONSchema_results_def split: sum.splits option.splits)

lemma results_ok_valid:
  "ConvertToWithJSONSchema_results validate unmapping v schema = (resp, None) \<Longrightarrow>
   unmapping v = Inr resp \<and> validate_opt validate schema resp = None"
  by (simp add: ConvertToWithJSONSchema_results_def split: sum.splits option.splits)

lemma args_ok:
  "validate_opt validate schema m = None \<Longrightarrow> mapping m = Inr input \<Longrightarrow>
   ConvertToWithJSONSchema_args validate mapping zero m schema = (input, None)"
  by (simp add: ConvertToWithJSONSchema_args_def)

lemma scenario_Resolve_contract:
  "snd (scenario_Resolve p) = Some e \<Longrightarrow> fst (scenario_Resolve p) = None"
  by (simp add: scenario_Resolve_def split: option.splits schema.splits)


section \<open>Registration\<close>


text \<open>
  C1. When the request's tool map already holds an entry under the tool's name,
  \<open>ProcessRequest\<close> returns the duplicate-tool error and the request it leaves behind is
  the request it was given: the same tool map, the same declaration list, the same
  everything else.
\<close>

theorem ProcessRequest_duplicate:
  assumes "Tools req = Some tools" and "tools (Name f) = Some g"
  shows "ProcessRequest Schema f ctx req = Inr (Some (DuplicateTool (Name f)), req)"
  using assms by (simp add: ProcessRequest_def map_index_def)


theorem ProcessRequest_duplicate_witness:
  "Tools add_request = Some [''add'' \<mapsto> add_tool] \<and>
   [''add'' \<mapsto> add_tool] (Name add_tool) = Some add_tool \<and>
   ProcessRequest (\<lambda>r. r) add_tool () add_request =
     Inr (Some (DuplicateTool ''add'' :: string error), add_request)"
proof -
  have t: "Tools add_request = Some [''add'' \<mapsto> add_tool]"
    by (simp add: add_request_def)
  have n: "Name add_tool = ''add''"
    by (simp add: Name_def add_tool_def add_cfg_def)
  have g: "[''add'' \<mapsto> add_tool] (Name add_tool) = Some add_tool"
    by (simp add: n)
  show ?thesis
    using ProcessRequest_duplicate [OF t g, of "\<lambda>r. r" "()"] t g by (simp add: n)
qed

text \<open>
  C10. Registering into a request whose tool map and generation config are both nil
  ends without a panic and without an error: the call creates the map before storing
  into it and the config before appending to it, and leaves a request with the tool
  stored under its name and one declaration-set entry holding the tool's declaration.
\<close>

theorem ProcessRequest_zero_request:
  assumes "Tools req = None" and "GenerateConfig req = None"
  shows "ProcessRequest Schema f ctx req =
           Inr (None,
                req\<lparr>Tools := Some [Name f \<mapsto> f],
                    GenerateConfig :=
                      Some \<lparr>genaiTools =
                              [\<lparr>FunctionDeclarations =
                                  [\<lparr>declName = Name f, declDescription = Description f,
                                    ParametersJsonSchema = map_option Schema (inputSchema f),
                                    ResponseJsonSchema = map_option Schema (outputSchema f)\<rparr>]\<rparr>]\<rparr>\<rparr>)"
proof -
  have "map_index (Tools req) (Name f) = None"
    using assms(1) by (simp add: map_index_def)
  from ProcessRequest_fresh [OF this] show ?thesis
    using assms by (simp add: Declaration_eq)
qed

theorem ProcessRequest_zero_request_witness:
  "Tools zero_request = None \<and> GenerateConfig zero_request = None \<and>
   ProcessRequest (\<lambda>r. r) add_tool () zero_request =
     Inr (None :: string error option, add_request)"
proof -
  have t: "Tools zero_request = None" and c: "GenerateConfig zero_request = None"
    by (simp_all add: zero_request_def)
  show ?thesis
    using ProcessRequest_zero_request [OF t c, of "\<lambda>r. r" add_tool "()"] t c
    by (simp add: zero_request_def add_request_def add_declaration_def Name_def
          Description_def add_tool_def add_cfg_def)
qed

text \<open>
  C4, as the claim states it, fails on the tool adapter with neither schema: its
  declaration is not nil and not empty (it carries the name and the description), and
  registration appends it to the request's declaration list.
\<close>

theorem Declaration_bare_tool_counterexample:
  "inputSchema bare_tool = None \<and> outputSchema bare_tool = None \<and>
   Declaration (\<lambda>r. r) bare_tool \<noteq> None \<and>
   Declaration (\<lambda>r. r) bare_tool =
     Some \<lparr>declName = ''add'', declDescription = ''adds two integers'',
           ParametersJsonSchema = None, ResponseJsonSchema = None\<rparr> \<and>
   ProcessRequest (\<lambda>r. r) bare_tool () zero_request =
     Inr (None :: string error option,
          \<lparr>Tools = Some [''add'' \<mapsto> bare_tool],
           GenerateConfig =
             Some \<lparr>genaiTools =
                     [\<lparr>FunctionDeclarations =
                         [\<lparr>declName = ''add'', declDescription = ''adds two integers'',
                           ParametersJsonSchema = None, ResponseJsonSchema = None\<rparr>]\<rparr>]\<rparr>\<rparr>)"
proof -
  have d: "Declaration (\<lambda>r. r) bare_tool =
             Some \<lparr>declName = ''add'', declDescription = ''adds two integers'',
                   ParametersJsonSchema = None, ResponseJsonSchema = None\<rparr>"
    by (simp add: Declaration_eq Name_def Description_def bare_tool_def add_cfg_def)
  have m: "map_index (Tools zero_request) (Name bare_tool) = None"
    by (simp add: map_index_def zero_request_def)
  have p: "ProcessRequest (\<lambda>r. r) bare_tool () zero_request =
     Inr (None :: string error option,
          \<lparr>Tools = Some [''add'' \<mapsto> bare_tool],
           GenerateConfig =
             Some \<lparr>genaiTools =
                     [\<lparr>FunctionDeclarations =
                         [\<lparr>declName = ''add'', declDescription = ''adds two integers'',
                           ParametersJsonSchema = None, ResponseJsonSchema = None\<rparr>]\<rparr>]\<rparr>\<rparr>)"
    using ProcessRequest_fresh [OF m, of "\<lambda>r. r" "()"]
    by (simp add: d zero_request_def) (simp add: Name_def bare_tool_def add_cfg_def)
  show ?thesis
    using d p by (simp add: bare_tool_def)
qed

text \<open>
  C4, amended. \<open>Declaration\<close> never returns nil: it returns a declaration with the
  tool's name and description, in which each schema field is set exactly when the tool
  has that schema (so neither is set when both schemas are absent). Registration
  appends a declaration-set entry whenever the declaration is not nil, hence every
  registration under a name not yet taken appends exactly one entry, holding exactly
  that declaration, after the entries already there.
\<close>

theorem Declaration_always_appended:
  assumes "map_index (Tools req) (Name f) = None"
  shows "Declaration Schema f =
           Some \<lparr>declName = Name f, declDescription = Description f,
                 ParametersJsonSchema = map_option Schema (inputSchema f),
                 ResponseJsonSchema = map_option Schema (outputSchema f)\<rparr> \<and>
         ProcessRequest Schema f ctx req =
           Inr (None,
                req\<lparr>Tools := Some ((case Tools req of None \<Rightarrow> Map.empty | Some g \<Rightarrow> g)
                                     (Name f \<mapsto> f)),
                    GenerateConfig :=
                      Some \<lparr>genaiTools =
                              (case GenerateConfig req of None \<Rightarrow> [] | Some gc \<Rightarrow> genaiTools gc) @
                              [\<lparr>FunctionDeclarations =
                                  [\<lparr>declName = Name f, declDescription = Description f,
                                    ParametersJsonSchema = map_option Schema (inputSchema f),
                                    ResponseJsonSchema =
                                      map_option Schema (outputSchema f)\<rparr>]\<rparr>]\<rparr>\<rparr>)"
  using ProcessRequest_fresh [OF assms, of Schema ctx]
  by (simp add: Declaration_eq)

text \<open>
  The spec's scenario of two registrations: a second tool, echo, registered after add
  gets its own entry after the entry of add.
\<close>

theorem Declaration_always_appended_witness:
  "map_index (Tools add_request) (Name (bare_tool\<lparr>cfg := echo_cfg\<rparr>)) = None \<and>
   Declaration (\<lambda>r. r) (bare_tool\<lparr>cfg := echo_cfg\<rparr>) =
     Some \<lparr>declName = ''echo'', declDescription = ''returns its arguments'',
           ParametersJsonSchema = None, ResponseJsonSchema = None\<rparr> \<and>
   ProcessRequest (\<lambda>r. r) (bare_tool\<lparr>cfg := echo_cfg\<rparr>) () add_request =
     Inr (None :: string error option,
          \<lparr>Tools = Some [''add'' \<mapsto> add_tool, ''echo'' \<mapsto> bare_tool\<lparr>cfg := echo_cfg\<rparr>],
           GenerateConfig =
             Some \<lparr>genaiTools =
                     [\<lparr>FunctionDeclarations = [add_declaration]\<rparr>,
                      \<lparr>FunctionDeclarations =
                         [\<lparr>declName = ''echo'', declDescription = ''returns its arguments'',
                           ParametersJsonSchema = None, ResponseJsonSchema = None\<rparr>]\<rparr>]\<rparr>\<rparr>)"
proof -
  have n: "Name (bare_tool\<lparr>cfg := echo_cfg\<rparr>) = ''echo''"
    by (simp add: Name_def echo_cfg_def)
  have d: "Description (bare_tool\<lparr>cfg := echo_cfg\<rparr>) = ''returns its arguments''"
    by (simp add: Description_def echo_cfg_def)
  have s: "inputSchema (bare_tool\<lparr>cfg := echo_cfg\<rparr>) = None"
          "outputSchema (bare_tool\<lparr>cfg := echo_cfg\<rparr>) = None"
    by (simp_all add: bare_tool_def)
  have m: "map_index (Tools add_request) (Name (bare_tool\<lparr>cfg := echo_cfg\<rparr>)) = None"
    by (simp add: n map_index_def add_request_def)
  show ?thesis
    using Declaration_always_appended [OF m, of "\<lambda>r. r" "()"] m
    by (simp add: n d s) (simp add: add_request_def)
qed

section \<open>Invocation\<close>

text \<open>
  C6. An argument whose dynamic type is not \<^verbatim>\<open>map[string]any\<close> (the nil interface, or a
  value of any other type, so in particular every value that is not a string-keyed
  mapping) makes \<open>Run\<close> return no result and the unexpected-type error at once: the
  list of calls is empty, so neither converter was called and the handler was not
  invoked. This holds whatever the converters and the handler are.
\<close>

theorem Run_unexpected_args:
  assumes "\<And>m. args \<noteq> MapStringAny m"
  shows "Run convert_args convert_results f ctx args =
           ((AnyNil, Some (UnexpectedArgsType (type_name args))), [])"
  using assms by (cases args) (auto simp add: Run_def)

theorem Run_unexpected_args_witness:
  "(OtherValue ''string'' :: json any) \<noteq> MapStringAny good_bag \<and>
   Run convert_add_args convert_add_results add_tool () (OtherValue ''string'') =
     ((AnyNil, Some (UnexpectedArgsType ''string'')), []) \<and>
   Run convert_add_args convert_add_results add_tool () AnyNil =
     ((AnyNil, Some (UnexpectedArgsType ''<nil>'')), [])"
proof -
  have o: "\<And>m. (OtherValue ''string'' :: json any) \<noteq> MapStringAny m"
    and n: "\<And>m. (AnyNil :: json any) \<noteq> MapStringAny m"
    by simp_all
  show ?thesis
    using Run_unexpected_args [OF o, of convert_add_args convert_add_results add_tool "()"]
      Run_unexpected_args [OF n, of convert_add_args convert_add_results add_tool "()"]
    by simp
qed

text \<open>
  C3. When the conversion of a string-keyed bag to the handler's typed input returns an
  error, \<open>Run\<close> returns no result and that very error, and the only call it made is the
  conversion of the arguments: the handler was not invoked. This holds for every
  converter, whatever its reason to fail.
\<close>

theorem Run_conversion_failure:
  assumes "convert_args m (inputSchema f) = (input, Some err)"
  shows "Run convert_args convert_results f ctx (MapStringAny m) =
           ((AnyNil, Some err), [ConvertArgs m])"
  using assms by (simp add: Run_map)

text \<open>The spec's scenario: add invoked with a string for \<open>a\<close>.\<close>

theorem Run_conversion_failure_witness:
  "convert_add_args bad_bag (inputSchema add_tool) =
     (\<lparr>arg_a = 0, arg_b = 0\<rparr>, Some (External ''schema violation'')) \<and>
   Run convert_add_args convert_add_results add_tool () (MapStringAny bad_bag) =
     ((AnyNil, Some (External ''schema violation'')), [ConvertArgs bad_bag])"
proof -
  have c: "convert_add_args bad_bag (inputSchema add_tool) =
             (\<lparr>arg_a = 0, arg_b = 0\<rparr>, Some (External ''schema violation''))"
    by (simp add: convert_add_args_def ConvertToWithJSONSchema_args_def validate_opt_def
          add_tool_def bad_bag_def int_field_def)
  show ?thesis
    using Run_conversion_failure
        [where convert_args = convert_add_args and m = bad_bag and f = add_tool
           and convert_results = convert_add_results and ctx = "()", OF c] c
    by simp
qed

text \<open>
  C2, as the claim states it, fails on tools built with an explicit schema that does not
  describe the handler's type (the constructor accepts them). With such an input schema,
  a bag may validate against the schema and still not map onto the input type, and then
  the handler is not called. With such an output schema, the handler is called and its
  output does not convert, and then \<open>Run\<close> returns an error and the nil map, which
  does not validate against the output schema.
\<close>

theorem Run_valid_args_counterexample:
  "NewFunctionTool For_AddArgs For_AddResults scenario_Resolve
     (add_cfg\<lparr>InputSchema := Some AcceptAll\<rparr>) add_handler = (Some lenient_tool, None) \<and>
   validate_opt scenario_validate (inputSchema lenient_tool) bad_bag = None \<and>
   Run convert_add_args convert_add_results lenient_tool () (MapStringAny bad_bag) =
     ((AnyNil, Some (External ''type mismatch on a'')), [ConvertArgs bad_bag]) \<and>
   validate_opt scenario_validate (inputSchema strict_echo_tool) good_bag = None \<and>
   fst (Run convert_add_args convert_echo_results strict_echo_tool () (MapStringAny good_bag)) =
     (MapStringAny None, Some (External ''schema violation'')) \<and>
   validate_opt scenario_validate (outputSchema strict_echo_tool) None =
     Some (External ''not an object'')"
  by (simp add: NewFunctionTool_def resolvedSchema_def scenario_Resolve_def
        For_AddResults_def lenient_tool_def add_cfg_def validate_opt_def Run_map
        convert_add_args_def ConvertToWithJSONSchema_args_def args_mapping_def
        map_index_def bad_bag_def convert_echo_results_def
        ConvertToWithJSONSchema_results_def strict_echo_tool_def good_bag_def
        int_field_def args_unmapping_def)

text \<open>
  C2, amended. For every argument bag whose conversion to the typed input succeeds (it
  validates against the input schema and maps onto the input type), \<open>Run\<close> calls the
  handler exactly once, with the converted input, between the two conversions, and
  returns exactly what the conversion of the handler's output under the output schema
  returns: with no error, a bag that is the unmapping of the output and validates against
  the output schema.
\<close>

theorem Run_converted_args:
  assumes "validate_opt validate (inputSchema f) m = None"
    and "mapping m = Inr input"
    and "ConvertToWithJSONSchema_results validate unmapping (handler f ctx input)
           (outputSchema f) = (resp, err)"
  shows "Run (ConvertToWithJSONSchema_args validate mapping zero)
             (ConvertToWithJSONSchema_results validate unmapping) f ctx (MapStringAny m) =
           ((MapStringAny resp, err),
            [ConvertArgs m, Handler input, ConvertResults (handler f ctx input)]) \<and>
         (err = None \<longrightarrow>
            unmapping (handler f ctx input) = Inr resp \<and>
            validate_opt validate (outputSchema f) resp = None)"
  using assms
    args_ok [where validate = validate and mapping = mapping and zero = zero, OF assms(1,2)]
    results_ok_valid [where validate = validate and unmapping = unmapping]
  by (auto simp add: Run_map)

text \<open>The spec's scenario: add invoked with 2 and 3 returns the bag with sum 5.\<close>

theorem Run_converted_args_witness:
  "validate_opt scenario_validate (inputSchema add_tool) good_bag = None \<and>
   args_mapping good_bag = Inr \<lparr>arg_a = 2, arg_b = 3\<rparr> \<and>
   convert_add_results (handler add_tool () \<lparr>arg_a = 2, arg_b = 3\<rparr>) (outputSchema add_tool) =
     (Some [''sum'' \<mapsto> JInt 5], None) \<and>
   Run convert_add_args convert_add_results add_tool () (MapStringAny good_bag) =
     ((MapStringAny (Some [''sum'' \<mapsto> JInt 5]), None),
      [ConvertArgs good_bag, Handler \<lparr>arg_a = 2, arg_b = 3\<rparr>, ConvertResults \<lparr>res_sum = 5\<rparr>]) \<and>
   validate_opt scenario_validate (outputSchema add_tool) (Some [''sum'' \<mapsto> JInt 5]) = None"
proof -
  have v: "validate_opt scenario_validate (inputSchema add_tool) good_bag = None"
    by (simp add: validate_opt_def add_tool_def good_bag_def int_field_def)
  have m: "args_mapping good_bag = Inr \<lparr>arg_a = 2, arg_b = 3\<rparr>"
    by (simp add: args_mapping_def map_index_def good_bag_def)
  have h: "handler add_tool () \<lparr>arg_a = 2, arg_b = 3\<rparr> = \<lparr>res_sum = 5\<rparr>"
    by (simp add: add_tool_def add_handler_def)
  have r: "ConvertToWithJSONSchema_results scenario_validate results_unmapping
             (handler add_tool () \<lparr>arg_a = 2, arg_b = 3\<rparr>) (outputSchema add_tool) =
             (Some [''sum'' \<mapsto> JInt 5], None)"
    by (simp add: ConvertToWithJSONSchema_results_def results_unmapping_def
          validate_opt_def add_tool_def add_handler_def int_field_def)
  show ?thesis
    using Run_converted_args
        [where validate = scenario_validate and mapping = args_mapping
           and unmapping = results_unmapping and f = add_tool and m = good_bag
           and ctx = "()" and zero = "\<lparr>arg_a = 0, arg_b = 0\<rparr>", OF v m r] v m r
    by (simp add: convert_add_args_def convert_add_results_def h)
qed

text \<open>
  C5. Whenever \<open>Run\<close> returns an error, it returns no result bag: the result is the nil
  interface when the argument had the wrong type or its conversion failed, and the nil
  map when the conversion of the handler's output failed (\<open>Run\<close> hands on what the
  converter returned, and the converter returns no bag with an error).
\<close>

theorem Run_error_no_result:
  assumes "Run convert_args (ConvertToWithJSONSchema_results validate unmapping) f ctx args =
             ((res, Some err), calls)"
  shows "res = AnyNil \<or> res = MapStringAny None"
proof (cases args)
  case (MapStringAny m)
  show ?thesis
  proof (cases "snd (convert_args m (inputSchema f))")
    case None
    then have "fst (ConvertToWithJSONSchema_results validate unmapping
                 (handler f ctx (fst (convert_args m (inputSchema f)))) (outputSchema f)) = None"
      using assms MapStringAny
      by (intro results_error_no_bag [where e = err])
         (simp add: Run_map case_prod_beta)
    with None assms MapStringAny show ?thesis
      by (auto simp add: Run_map case_prod_beta)
  next
    case (Some e)
    with assms MapStringAny show ?thesis
      by (auto simp add: Run_map case_prod_beta)
  qed
qed (use assms in \<open>auto simp add: Run_def\<close>)

text \<open>
  The handler's output \<^verbatim>\<open>{a: 2, b: 3}\<close> does not validate against an output schema that
  asks for a field \<open>c\<close>: \<open>Run\<close> returns the error and the nil map.
\<close>

theorem Run_error_no_result_witness:
  "Run convert_add_args convert_echo_results strict_echo_tool () (MapStringAny good_bag) =
     ((MapStringAny None, Some (External ''schema violation'')),
      [ConvertArgs good_bag, Handler \<lparr>arg_a = 2, arg_b = 3\<rparr>,
       ConvertResults \<lparr>arg_a = 2, arg_b = 3\<rparr>]) \<and>
   ((MapStringAny None :: json any) = AnyNil \<or>
    (MapStringAny None :: json any) = MapStringAny None)"
proof -
  have r: "Run convert_add_args
             (ConvertToWithJSONSchema_results scenario_validate args_unmapping)
             strict_echo_tool () (MapStringAny good_bag) =
           ((MapStringAny None, Some (External ''schema violation'')),
            [ConvertArgs good_bag, Handler \<lparr>arg_a = 2, arg_b = 3\<rparr>,
             ConvertResults \<lparr>arg_a = 2, arg_b = 3\<rparr>])"
    by (simp add: Run_map convert_add_args_def ConvertToWithJSONSchema_args_def
          ConvertToWithJSONSchema_results_def validate_opt_def strict_echo_tool_def
          good_bag_def int_field_def args_mapping_def args_unmapping_def map_index_def)
  show ?thesis
    using Run_error_no_result [OF r] r by (simp add: convert_echo_results_def)
qed




section \<open>Construction\<close>

text \<open>
  C7. With an explicit schema, \<open>resolvedSchema\<close> returns what resolving that schema
  returns, whatever inference from the type would give. Without one, it resolves the
  schema inferred from the type if inference succeeds, and returns the inference error
  and no resolved schema if it fails. Given a library whose \<open>Resolve\<close> returns no
  resolved schema together with an error, every failure of \<open>resolvedSchema\<close> comes
  with no resolved schema.
\<close>

theorem resolvedSchema_paths:
  assumes "\<And>p e. snd (Resolve p) = Some e \<Longrightarrow> fst (Resolve p) = None"
  shows "resolvedSchema For_T Resolve (Some s) = Resolve (Some s) \<and>
         (snd For_T = None \<longrightarrow> resolvedSchema For_T Resolve None = Resolve (fst For_T)) \<and>
         (snd For_T = Some err \<longrightarrow> resolvedSchema For_T Resolve None = (None, Some err)) \<and>
         (snd (resolvedSchema For_T Resolve override) \<noteq> None \<longrightarrow>
            fst (resolvedSchema For_T Resolve override) = None)"
proof -
  have "fst (resolvedSchema For_T Resolve override) = None"
    if "snd (resolvedSchema For_T Resolve override) \<noteq> None"
  proof (cases override)
    case None
    with that assms [of "fst For_T"] show ?thesis
      by (cases For_T) (auto simp add: resolvedSchema_def split: option.splits)
  next
    case (Some t)
    with that assms [of "Some t"] show ?thesis
      by (auto simp add: resolvedSchema_def)
  qed
  then show ?thesis
    by (cases For_T) (simp add: resolvedSchema_def)
qed

theorem resolvedSchema_paths_witness:
  "resolvedSchema For_AddArgs scenario_Resolve (Some AcceptAll) = (Some AcceptAll, None) \<and>
   resolvedSchema For_AddArgs scenario_Resolve None = (Some (IntFields [''a'', ''b'']), None) \<and>
   resolvedSchema (None, Some (External ''unsupported type'')) scenario_Resolve None =
     (None :: schema option, Some (External ''unsupported type'')) \<and>
   snd (resolvedSchema For_AddArgs scenario_Resolve (Some BadRef)) =
     Some (External ''unresolvable reference'') \<and>
   fst (resolvedSchema For_AddArgs scenario_Resolve (Some BadRef)) = None"
proof -
  note c = scenario_Resolve_contract
  have a: "snd For_AddArgs = None" and f: "fst For_AddArgs = Some (IntFields [''a'', ''b''])"
    by (simp_all add: For_AddArgs_def)
  have b: "snd (None :: schema option, Some (External ''unsupported type'' :: string error)) =
             Some (External ''unsupported type'')"
    by simp
  have r: "scenario_Resolve (Some AcceptAll) = (Some AcceptAll, None)"
          "scenario_Resolve (Some (IntFields [''a'', ''b''])) = (Some (IntFields [''a'', ''b'']), None)"
          "scenario_Resolve (Some BadRef) = (None, Some (External ''unresolvable reference''))"
    by (simp_all add: scenario_Resolve_def)
  show ?thesis
    using resolvedSchema_paths
        [where Resolve = scenario_Resolve and For_T = For_AddArgs and s = AcceptAll
           and override = "Some BadRef", OF c]
      resolvedSchema_paths
        [where Resolve = scenario_Resolve and s = BadRef
           and For_T = "(None, Some (External ''unsupported type''))"
           and err = "External ''unsupported type''", OF c]
      resolvedSchema_paths
        [where Resolve = scenario_Resolve and For_T = For_AddArgs and s = BadRef, OF c]
    by (simp add: a f r)
qed

text \<open>
  C8. If resolving the input schema fails, \<open>NewFunctionTool\<close> returns no tool and the
  error of the resolver wrapped as a failure of the input schema. If it succeeds and
  resolving the output schema fails, \<open>NewFunctionTool\<close> returns no tool and that error
  wrapped as a failure of the output schema. If both succeed, it returns no error and
  the tool made of the configuration, the two resolved schemas and the handler.
\<close>

theorem NewFunctionTool_outcome:
  "(snd (resolvedSchema For_TArgs Resolve (InputSchema c)) = Some e \<longrightarrow>
      NewFunctionTool For_TArgs For_TResults Resolve c h =
        (None, Some (FailedToInferInputSchema e))) \<and>
   (snd (resolvedSchema For_TArgs Resolve (InputSchema c)) = None \<and>
    snd (resolvedSchema For_TResults Resolve (OutputSchema c)) = Some e \<longrightarrow>
      NewFunctionTool For_TArgs For_TResults Resolve c h =
        (None, Some (FailedToInferOutputSchema e))) \<and>
   (snd (resolvedSchema For_TArgs Resolve (InputSchema c)) = None \<and>
    snd (resolvedSchema For_TResults Resolve (OutputSchema c)) = None \<longrightarrow>
      NewFunctionTool For_TArgs For_TResults Resolve c h =
        (Some \<lparr>cfg = c,
               inputSchema = fst (resolvedSchema For_TArgs Resolve (InputSchema c)),
               outputSchema = fst (resolvedSchema For_TResults Resolve (OutputSchema c)),
               handler = h\<rparr>,
         None))"
  by (cases "resolvedSchema For_TArgs Resolve (InputSchema c)";
      cases "resolvedSchema For_TResults Resolve (OutputSchema c)")
     (simp add: NewFunctionTool_def)

theorem NewFunctionTool_outcome_witness:
  "snd (resolvedSchema For_AddArgs scenario_Resolve (InputSchema (add_cfg\<lparr>InputSchema := Some BadRef\<rparr>))) =
     Some (External ''unresolvable reference'') \<and>
   NewFunctionTool For_AddArgs For_AddResults scenario_Resolve
     (add_cfg\<lparr>InputSchema := Some BadRef\<rparr>) add_handler =
     (None, Some (FailedToInferInputSchema (External ''unresolvable reference''))) \<and>
   snd (resolvedSchema For_AddArgs scenario_Resolve (InputSchema (add_cfg\<lparr>OutputSchema := Some BadRef\<rparr>))) =
     None \<and>
   snd (resolvedSchema For_AddResults scenario_Resolve (OutputSchema (add_cfg\<lparr>OutputSchema := Some BadRef\<rparr>))) =
     Some (External ''unresolvable reference'') \<and>
   NewFunctionTool For_AddArgs For_AddResults scenario_Resolve
     (add_cfg\<lparr>OutputSchema := Some BadRef\<rparr>) add_handler =
     (None, Some (FailedToInferOutputSchema (External ''unresolvable reference''))) \<and>
   snd (resolvedSchema For_AddArgs scenario_Resolve (InputSchema add_cfg)) = None \<and>
   snd (resolvedSchema For_AddResults scenario_Resolve (OutputSchema add_cfg)) = None \<and>
   NewFunctionTool For_AddArgs For_AddResults scenario_Resolve add_cfg add_handler =
     (Some add_tool, None)"
proof -
  have i: "resolvedSchema For_AddArgs scenario_Resolve (Some BadRef) =
             (None, Some (External ''unresolvable reference''))"
          "resolvedSchema For_AddArgs scenario_Resolve None =
             (Some (IntFields [''a'', ''b'']), None)"
    by (simp_all add: resolvedSchema_def scenario_Resolve_def For_AddArgs_def)
  have o: "resolvedSchema For_AddResults scenario_Resolve (Some BadRef) =
             (None, Some (External ''unresolvable reference''))"
          "resolvedSchema For_AddResults scenario_Resolve None =
             (Some (IntFields [''sum'']), None)"
    by (simp_all add: resolvedSchema_def scenario_Resolve_def For_AddResults_def)
  have s: "InputSchema add_cfg = None" "OutputSchema add_cfg = None"
    by (simp_all add: add_cfg_def)
  show ?thesis
    using NewFunctionTool_outcome
        [where For_TArgs = For_AddArgs and For_TResults = For_AddResults
           and Resolve = scenario_Resolve and c = "add_cfg\<lparr>InputSchema := Some BadRef\<rparr>"
           and h = add_handler and e = "External ''unresolvable reference''"]
      NewFunctionTool_outcome
        [where For_TArgs = For_AddArgs and For_TResults = For_AddResults
           and Resolve = scenario_Resolve and c = "add_cfg\<lparr>OutputSchema := Some BadRef\<rparr>"
           and h = add_handler and e = "External ''unresolvable reference''"]
      NewFunctionTool_outcome
        [where For_TArgs = For_AddArgs and For_TResults = For_AddResults
           and Resolve = scenario_Resolve and c = add_cfg and h = add_handler]
    by (simp add: i o s add_tool_def)
qed

end
